theory Spec2Isabelle
  imports Complex_Main "HOL-Library.Sublist"
begin

section \<open>Text formatting of the Python f-strings\<close>

text \<open>
  The script \<^verbatim>\<open>read_scenario.py\<close> prints its report with f-strings. The format
  specifications it uses are written out here on exact numbers: a stored float64 is a
  rational, and the model computes with the rationals themselves, so the rounding of
  float64 addition and subtraction is not part of the model.
\<close>

definition digit_char :: "nat \<Rightarrow> char" where
  "digit_char d = ''0123456789'' ! d"

fun str_nat :: "nat \<Rightarrow> string" where
  "str_nat n = (if n < 10 then [digit_char n] else str_nat (n div 10) @ [digit_char (n mod 10)])"

declare str_nat.simps [simp del]

definition str_int :: "int \<Rightarrow> string" where
  "str_int i = (if i < 0 then ''-'' @ str_nat (nat (- i)) else str_nat (nat i))"

definition rjust :: "nat \<Rightarrow> string \<Rightarrow> string" where
  \<comment> \<open>format specification \<^verbatim>\<open>>w\<close>\<close>
  "rjust w s = replicate (w - length s) (CHR '' '') @ s"

definition ljust :: "nat \<Rightarrow> string \<Rightarrow> string" where
  \<comment> \<open>format specification \<^verbatim>\<open><w\<close>\<close>
  "ljust w s = s @ replicate (w - length s) (CHR '' '')"

definition zfill :: "nat \<Rightarrow> string \<Rightarrow> string" where
  "zfill w s = replicate (w - length s) (CHR ''0'') @ s"

definition round_half_even :: "rat \<Rightarrow> int" where
  "round_half_even s =
     (let fl = \<lfloor>s\<rfloor>; fr = s - of_int fl
      in if fr < 1 / 2 then fl
         else if 1 / 2 < fr then fl + 1
         else if even fl then fl else fl + 1)"

definition fmt_abs :: "nat \<Rightarrow> rat \<Rightarrow> string" where
  \<comment> \<open>the digits of \<^verbatim>\<open>.df\<close>, without the sign\<close>
  "fmt_abs d x =
     (let r = nat (round_half_even (\<bar>x\<bar> * 10 ^ d))
      in str_nat (r div 10 ^ d) @
         (if d = 0 then [] else ''.'' @ zfill d (str_nat (r mod 10 ^ d))))"

definition fmt_f :: "nat \<Rightarrow> rat \<Rightarrow> string" where
  \<comment> \<open>format specification \<^verbatim>\<open>.df\<close>\<close>
  "fmt_f d x = (if x < 0 then ''-'' else []) @ fmt_abs d x"

definition fmt_plus_f :: "nat \<Rightarrow> rat \<Rightarrow> string" where
  \<comment> \<open>format specification \<^verbatim>\<open>+.df\<close>: the sign is always printed\<close>
  "fmt_plus_f d x = (if x < 0 then ''-'' else ''+'') @ fmt_abs d x"

definition fmt_06d :: "nat \<Rightarrow> string" where
  \<comment> \<open>format specification \<^verbatim>\<open>06d\<close>, on the positive numbers the script passes\<close>
  "fmt_06d n = zfill 6 (str_nat n)"

definition nl :: string where
  "nl = [CHR 0x0A]"

definition rule_eq :: string where
  \<comment> \<open>\<^verbatim>\<open>"=" * 60\<close>\<close>
  "rule_eq = replicate 60 (CHR ''='')"

definition rule_dash :: "nat \<Rightarrow> string" where
  \<comment> \<open>\<^verbatim>\<open>"-" * n\<close>\<close>
  "rule_dash n = replicate n (CHR ''-'')"


section \<open>The HDF5 container\<close>

text \<open>
  The container is the tree h5py shows: a group has attributes and named children in
  iteration order, a dataset has attributes, a dtype name and its array. The arrays the
  schema of the result files uses are two-dimensional numeric tables (the number of
  columns and the rows) and one-dimensional vectors of integers or of text.
\<close>

datatype attr = AInt int | ANum rat | AStr string

datatype data = Table nat "rat list list" | IntVec "int list" | StrVec "string list"

datatype node =
    Dataset "(string \<times> attr) list" string data
  | Group "(string \<times> attr) list" "(string \<times> node) list"

fun attrs :: "node \<Rightarrow> (string \<times> attr) list" where
  "attrs (Dataset a _ _) = a"
| "attrs (Group a _) = a"

fun children :: "node \<Rightarrow> (string \<times> node) list" where
  "children (Dataset _ _ _) = []"
| "children (Group _ cs) = cs"

text \<open>
  numpy's \<^verbatim>\<open>str()\<close> of a float and of an array are library functions whose text is
  not reproduced here; the functions that print such values take them as parameters.
\<close>

record lib =
  str_float :: "rat \<Rightarrow> string"
  str_array :: "data \<Rightarrow> string"
  str_row :: "rat list \<Rightarrow> string"

definition str_attr :: "lib \<Rightarrow> attr \<Rightarrow> string" where
  "str_attr L v = (case v of AInt i \<Rightarrow> str_int i | ANum r \<Rightarrow> str_float L r | AStr s \<Rightarrow> s)"

definition str_shape :: "data \<Rightarrow> string" where
  \<comment> \<open>\<^verbatim>\<open>str()\<close> of the shape tuple\<close>
  "str_shape d =
     (case d of
        Table c rows \<Rightarrow> ''('' @ str_nat (length rows) @ '', '' @ str_nat c @ '')''
      | IntVec xs \<Rightarrow> ''('' @ str_nat (length xs) @ '',)''
      | StrVec xs \<Rightarrow> ''('' @ str_nat (length xs) @ '',)'')"

subsection \<open>Paths\<close>

text \<open>
  A path is a string of link names separated by \<^verbatim>\<open>/\<close>; empty components (a leading,
  trailing or doubled separator) are skipped, and every name is matched exactly.
\<close>

fun split_slash :: "string \<Rightarrow> string list" where
  "split_slash [] = [[]]"
| "split_slash (c # cs) =
     (if c = CHR ''/'' then [] # split_slash cs
      else (case split_slash cs of [] \<Rightarrow> [[c]] | w # ws \<Rightarrow> (c # w) # ws))"

definition split_path :: "string \<Rightarrow> string list" where
  "split_path p = filter (\<lambda>w. w \<noteq> []) (split_slash p)"

fun lookup :: "node \<Rightarrow> string list \<Rightarrow> node option" where
  "lookup n [] = Some n"
| "lookup (Dataset _ _ _) (c # cs) = None"
| "lookup (Group a ch) (c # cs) =
     (case map_of ch c of None \<Rightarrow> None | Some n \<Rightarrow> lookup n cs)"

definition contains :: "node \<Rightarrow> string \<Rightarrow> bool" where
  \<comment> \<open>\<^verbatim>\<open>path in f\<close>\<close>
  "contains f p = (lookup f (split_path p) \<noteq> None)"

text \<open>
  \<^verbatim>\<open>visititems\<close> calls the visitor on every object below the group, a parent before
  its children, with the object's path relative to the group.
\<close>

fun visit_node :: "string \<Rightarrow> node \<Rightarrow> (string \<times> node) list"
  and visit_children :: "string \<Rightarrow> (string \<times> node) list \<Rightarrow> (string \<times> node) list" where
  "visit_node name (Dataset a t d) = [(name, Dataset a t d)]"
| "visit_node name (Group a cs) = (name, Group a cs) # visit_children (name @ ''/'') cs"
| "visit_children pre [] = []"
| "visit_children pre (kn # rest) = visit_node (pre @ fst kn) (snd kn) @ visit_children pre rest"

definition visititems :: "node \<Rightarrow> (string \<times> node) list" where
  "visititems f = visit_children [] (children f)"

text \<open>
  HDF5 link names are not empty, hold no separator, and are distinct within a group.
\<close>

fun wf_node :: "node \<Rightarrow> bool"
  and wf_children :: "(string \<times> node) list \<Rightarrow> bool" where
  "wf_node (Dataset a t d) = True"
| "wf_node (Group a cs) = (distinct (map fst cs) \<and> wf_children cs)"
| "wf_children [] = True"
| "wf_children (kn # rest) =
     (fst kn \<noteq> [] \<and> CHR ''/'' \<notin> set (fst kn) \<and> wf_node (snd kn) \<and> wf_children rest)"


section \<open>Effects: standard output, reads of the container, exceptions\<close>

text \<open>
  A run of the script prints lines and reads the container, and an exception that nothing
  catches ends it. The model threads a record of what was printed (one entry for each
  call of \<^verbatim>\<open>print\<close>) and of the paths that were looked up, and returns the exception
  or the value.
\<close>

datatype py_error = OSError string | KeyError string | IndexError | ValueError | TypeError

record world =
  out :: "string list"
  reads :: "string list"

type_synonym 'a io = "world \<Rightarrow> (py_error + 'a) \<times> world"

definition return_io :: "'a \<Rightarrow> 'a io" where
  "return_io x w = (Inr x, w)"

definition raise_io :: "py_error \<Rightarrow> 'a io" where
  "raise_io e w = (Inl e, w)"

definition lift_io :: "py_error + 'a \<Rightarrow> 'a io" where
  \<comment> \<open>an expression without effects that may raise\<close>
  "lift_io r w = (r, w)"

definition bind_io :: "'a io \<Rightarrow> ('a \<Rightarrow> 'b io) \<Rightarrow> 'b io" where
  "bind_io m k w = (case m w of (Inl e, w') \<Rightarrow> (Inl e, w') | (Inr x, w') \<Rightarrow> k x w')"

definition seq_io :: "unit io \<Rightarrow> 'a io \<Rightarrow> 'a io" where
  "seq_io m k = bind_io m (\<lambda>_. k)"

fun block :: "unit io list \<Rightarrow> unit io" where
  \<comment> \<open>a sequence of statements\<close>
  "block [] = return_io ()"
| "block (s # ss) = seq_io s (block ss)"

definition for_each :: "'a list \<Rightarrow> ('a \<Rightarrow> unit io) \<Rightarrow> unit io" where
  "for_each xs body = block (map body xs)"

definition print :: "string \<Rightarrow> unit io" where
  "print s w = (Inr (), w\<lparr>out := out w @ [s]\<rparr>)"

definition log_read :: "string \<Rightarrow> unit io" where
  "log_read p w = (Inr (), w\<lparr>reads := reads w @ [p]\<rparr>)"

definition world0 :: world where
  "world0 = \<lparr>out = [], reads = []\<rparr>"

subsection \<open>Access to the container\<close>

type_synonym obj = "string \<times> node"
  \<comment> \<open>an open object: its absolute path and the node\<close>

definition abs_path :: "string \<Rightarrow> string \<Rightarrow> string" where
  "abs_path base p = (if base = [] then p else base @ ''/'' @ p)"

definition open_file :: "(string \<Rightarrow> node option) \<Rightarrow> string \<Rightarrow> obj io" where
  \<comment> \<open>\<^verbatim>\<open>h5py.File(filepath, "r")\<close>: a file that is absent or unreadable raises\<close>
  "open_file fs fp = (case fs fp of None \<Rightarrow> raise_io (OSError fp) | Some f \<Rightarrow> return_io ([], f))"

definition getitem :: "obj \<Rightarrow> string \<Rightarrow> obj io" where
  \<comment> \<open>\<^verbatim>\<open>g[p]\<close>\<close>
  "getitem g p =
     seq_io (log_read (abs_path (fst g) p))
       (case lookup (snd g) (split_path p) of
          None \<Rightarrow> raise_io (KeyError p)
        | Some n \<Rightarrow> return_io (abs_path (fst g) p, n))"

definition get_attr :: "obj \<Rightarrow> string \<Rightarrow> attr io" where
  \<comment> \<open>\<^verbatim>\<open>g.attrs[k]\<close>\<close>
  "get_attr g k =
     seq_io (log_read (fst g @ ''@'' @ k))
       (case map_of (attrs (snd g)) k of
          None \<Rightarrow> raise_io (KeyError k)
        | Some v \<Rightarrow> return_io v)"

definition read_all :: "obj \<Rightarrow> data io" where
  \<comment> \<open>\<^verbatim>\<open>g[:]\<close>: a group cannot be sliced\<close>
  "read_all g = (case snd g of Dataset a t d \<Rightarrow> return_io d | Group a cs \<Rightarrow> raise_io TypeError)"

definition read_column :: "obj \<Rightarrow> nat \<Rightarrow> rat list io" where
  \<comment> \<open>\<^verbatim>\<open>g[:, k]\<close>, the selection made by h5py\<close>
  "read_column g k =
     (case snd g of
        Group a cs \<Rightarrow> raise_io TypeError
      | Dataset a t d \<Rightarrow>
          (case d of
             Table c rows \<Rightarrow> if k < c then return_io (map (\<lambda>r. r ! k) rows) else raise_io IndexError
           | IntVec xs \<Rightarrow> raise_io ValueError
           | StrVec xs \<Rightarrow> raise_io ValueError))"

subsection \<open>numpy arrays and Python lists\<close>

definition column :: "nat \<Rightarrow> data \<Rightarrow> py_error + rat list" where
  \<comment> \<open>\<^verbatim>\<open>arr[:, k]\<close> on the array in memory\<close>
  "column k d =
     (case d of
        Table c rows \<Rightarrow> if k < c then Inr (map (\<lambda>r. r ! k) rows) else Inl IndexError
      | IntVec xs \<Rightarrow> Inl IndexError
      | StrVec xs \<Rightarrow> Inl IndexError)"

definition cell :: "data \<Rightarrow> nat \<Rightarrow> nat \<Rightarrow> py_error + rat" where
  \<comment> \<open>\<^verbatim>\<open>arr[i, k]\<close>\<close>
  "cell d i k =
     (case d of
        Table c rows \<Rightarrow> if i < length rows \<and> k < c then Inr (rows ! i ! k) else Inl IndexError
      | IntVec xs \<Rightarrow> Inl IndexError
      | StrVec xs \<Rightarrow> Inl IndexError)"

definition np_min :: "rat list \<Rightarrow> py_error + rat" where
  "np_min xs = (case xs of [] \<Rightarrow> Inl ValueError | x # r \<Rightarrow> Inr (fold min r x))"

definition np_max :: "rat list \<Rightarrow> py_error + rat" where
  "np_max xs = (case xs of [] \<Rightarrow> Inl ValueError | x # r \<Rightarrow> Inr (fold max r x))"

definition np_sub :: "rat list \<Rightarrow> rat list \<Rightarrow> py_error + rat list" where
  \<comment> \<open>\<^verbatim>\<open>xs - ys\<close> with numpy's broadcasting of a single element\<close>
  "np_sub xs ys =
     (if length xs = length ys then Inr (map2 (-) xs ys)
      else if length ys = 1 then Inr (map (\<lambda>x. x - hd ys) xs)
      else if length xs = 1 then Inr (map (\<lambda>y. hd xs - y) ys)
      else Inl ValueError)"

definition index :: "'a list \<Rightarrow> nat \<Rightarrow> py_error + 'a" where
  \<comment> \<open>\<^verbatim>\<open>xs[i]\<close> with \<^verbatim>\<open>i\<close> from a \<^verbatim>\<open>range\<close>\<close>
  "index xs i = (if i < length xs then Inr (xs ! i) else Inl IndexError)"

definition py_range :: "attr \<Rightarrow> py_error + nat list" where
  \<comment> \<open>\<^verbatim>\<open>range(n)\<close>: only an integer is accepted, a negative one gives nothing\<close>
  "py_range n = (case n of AInt k \<Rightarrow> Inr [0..<nat k] | ANum r \<Rightarrow> Inl TypeError | AStr s \<Rightarrow> Inl TypeError)"

definition attr_eq1 :: "attr \<Rightarrow> bool" where
  \<comment> \<open>\<^verbatim>\<open>v == 1\<close>\<close>
  "attr_eq1 v = (case v of AInt k \<Rightarrow> k = 1 | ANum r \<Rightarrow> r = 1 | AStr s \<Rightarrow> False)"

definition fmt_attr_11_2f :: "attr \<Rightarrow> py_error + string" where
  \<comment> \<open>format specification \<^verbatim>\<open>>11.2f\<close>\<close>
  "fmt_attr_11_2f v =
     (case v of
        AInt k \<Rightarrow> Inr (rjust 11 (fmt_f 2 (of_int k)))
      | ANum r \<Rightarrow> Inr (rjust 11 (fmt_f 2 r))
      | AStr s \<Rightarrow> Inl ValueError)"

text \<open>
  The elements of a one-dimensional array, as the list comprehensions of the script see
  them: text (bytes are decoded), integers, which print as their decimals, or, for a
  table, its rows.
\<close>

datatype item = Text string | Row "rat list"

definition items :: "data \<Rightarrow> item list" where
  "items d =
     (case d of
        StrVec ss \<Rightarrow> map Text ss
      | IntVec xs \<Rightarrow> map (\<lambda>x. Text (str_int x)) xs
      | Table c rows \<Rightarrow> map Row rows)"

definition str_item :: "lib \<Rightarrow> item \<Rightarrow> string" where
  "str_item L x = (case x of Text s \<Rightarrow> s | Row r \<Rightarrow> str_row L r)"

definition fmt_item_21 :: "item \<Rightarrow> py_error + string" where
  \<comment> \<open>format specification \<^verbatim>\<open><21\<close>, which an array does not accept\<close>
  "fmt_item_21 x = (case x of Text s \<Rightarrow> Inr (ljust 21 s) | Row r \<Rightarrow> Inl TypeError)"

definition eq0_at :: "data \<Rightarrow> nat \<Rightarrow> py_error + bool" where
  \<comment> \<open>the truth value of \<^verbatim>\<open>arr[i] == 0\<close>\<close>
  "eq0_at d i =
     (case d of
        IntVec ts \<Rightarrow> if i < length ts then Inr (ts ! i = 0) else Inl IndexError
      | StrVec ss \<Rightarrow> if i < length ss then Inr False else Inl IndexError
      | Table c rows \<Rightarrow>
          if i < length rows then (if c = 1 then Inr (rows ! i ! 0 = 0) else Inl ValueError)
          else Inl IndexError)"


section \<open>The script\<close>

subsection \<open>\<^verbatim>\<open>print_structure\<close>\<close>

definition visitor :: "lib \<Rightarrow> string \<times> node \<Rightarrow> unit io" where
  "visitor L nobj =
     (let name = fst nobj;
          indent = concat (replicate (count_list name (CHR ''/'')) ''  '')
      in case snd nobj of
           Dataset a t d \<Rightarrow> print (indent @ name @ '': '' @ str_shape d @ '' '' @ t)
         | Group a cs \<Rightarrow>
             seq_io (print (indent @ name @ ''/''))
               (for_each a (\<lambda>kv. print (indent @ ''  @'' @ fst kv @ '' = '' @ str_attr L (snd kv)))))"

definition print_structure :: "lib \<Rightarrow> (string \<Rightarrow> node option) \<Rightarrow> string \<Rightarrow> unit io" where
  "print_structure L fs fp =
     block
       [print rule_eq,
        print (''HDF5 Structure: '' @ fp),
        print rule_eq,
        bind_io (open_file fs fp) (\<lambda>f. for_each (visititems (snd f)) (visitor L))]"

subsection \<open>\<^verbatim>\<open>read_element\<close>\<close>

definition quote :: string where
  "quote = [CHR 0x27]"

definition read_element :: "lib \<Rightarrow> (string \<Rightarrow> node option) \<Rightarrow> string \<Rightarrow> string \<Rightarrow> unit io" where
  "read_element L fs fp element_path =
     bind_io (open_file fs fp) (\<lambda>f.
       if \<not> contains (snd f) element_path then
         block
           [print (''Error: '' @ quote @ element_path @ quote @ '' not found in '' @ fp),
            print (nl @ ''Available paths:''),
            for_each (visititems (snd f)) (\<lambda>nobj. print (''  '' @ fst nobj))]
       else
         bind_io (getitem f element_path) (\<lambda>ob.
           seq_io (print (''Path: '' @ element_path))
             (case snd ob of
                Dataset a t d \<Rightarrow>
                  block
                    [print ''Type: Dataset'',
                     print (''Shape: '' @ str_shape d),
                     print (''Dtype: '' @ t),
                     print (nl @ ''Data:'' @ nl @ str_array L d)]
              | Group a cs \<Rightarrow>
                  block
                    [print ''Type: Group'',
                     print ''Attributes:'',
                     for_each a (\<lambda>kv. print (''  '' @ fst kv @ '' = '' @ str_attr L (snd kv))),
                     print ''Children:'',
                     for_each cs (\<lambda>kn. print (''  '' @ fst kn))])))"

subsection \<open>\<^verbatim>\<open>read_scenario\<close>\<close>

text \<open>
  The body of \<^verbatim>\<open>read_scenario\<close> is one sequence of statements; it is cut here at the
  comments that head its parts, and each part is a function of the values the part uses.
\<close>

definition read_loads :: "obj \<Rightarrow> data io" where
  \<comment> \<open>Input load with weights\<close>
  "read_loads f =
     bind_io (getitem f ''grid/nodes/load'') (\<lambda>g.
     bind_io (read_all g) (\<lambda>load_input.
     seq_io (print (nl @ ''Input loads: '' @ str_shape load_input))
    (seq_io (print ''  Columns: [pd, qd, weight_p, weight_q]'')
    (bind_io (lift_io (column 0 load_input)) (\<lambda>pd.
     seq_io (print (''  Total P demand: '' @ fmt_f 2 (sum_list pd) @ '' MW''))
    (bind_io (lift_io (column 1 load_input)) (\<lambda>qd.
     seq_io (print (''  Total Q demand: '' @ fmt_f 2 (sum_list qd) @ '' MVAr''))
    (return_io load_input))))))))"

definition shed_line :: "rat \<Rightarrow> rat \<Rightarrow> string" where
  "shed_line p_shed q_shed =
     ''  Load shed: P='' @ fmt_f 2 p_shed @ '' MW, Q='' @ fmt_f 2 q_shed @ '' MVAr''"

definition read_base :: "obj \<Rightarrow> data \<Rightarrow> unit io" where
  \<comment> \<open>Base case OPF solution; Calculate load shedding\<close>
  "read_base f load_input =
     bind_io (getitem f ''base_solution/opf/nodes/bus'') (\<lambda>gb.
     bind_io (read_column gb 1) (\<lambda>base_vm.
     bind_io (getitem f ''base_solution/opf/nodes/generator'') (\<lambda>gg.
     bind_io (read_column gg 0) (\<lambda>base_pg.
     bind_io (getitem f ''base_solution/opf/nodes/load'') (\<lambda>gl.
     bind_io (read_all gl) (\<lambda>base_load_served.
     seq_io (print (nl @ ''Base case OPF:''))
    (seq_io (print (''  Total generation: '' @ fmt_f 2 (sum_list base_pg) @ '' MW''))
    (bind_io (lift_io (np_min base_vm)) (\<lambda>vmin.
     bind_io (lift_io (np_max base_vm)) (\<lambda>vmax.
     seq_io (print (''  Voltage range: '' @ fmt_f 4 vmin @ '' - '' @ fmt_f 4 vmax @ '' p.u.''))
    (bind_io (lift_io (column 0 load_input)) (\<lambda>pd.
     bind_io (lift_io (column 0 base_load_served)) (\<lambda>ps.
     bind_io (lift_io (column 1 load_input)) (\<lambda>qd.
     bind_io (lift_io (column 1 base_load_served)) (\<lambda>qs.
     print (shed_line (sum_list pd - sum_list ps) (sum_list qd - sum_list qs)))))))))))))))))"

definition type_str :: "data \<Rightarrow> nat \<Rightarrow> py_error + string" where
  \<comment> \<open>\<^verbatim>\<open>"LINE" if cont_types[i] == 0 else "GEN"\<close>\<close>
  "type_str cont_types i =
     (case eq0_at cont_types i of Inl e \<Rightarrow> Inl e | Inr z \<Rightarrow> Inr (if z then ''LINE'' else ''GEN''))"

definition catalog_line :: "lib \<Rightarrow> nat \<Rightarrow> item \<Rightarrow> string \<Rightarrow> item \<Rightarrow> string" where
  "catalog_line L i name ts ident =
     ''  '' @ str_nat (i + 1) @ '': '' @ str_item L name @ '' ('' @ ts @ '' outage, id='' @
     str_item L ident @ '')''"

definition print_catalog ::
  "lib \<Rightarrow> nat list \<Rightarrow> data \<Rightarrow> item list \<Rightarrow> item list \<Rightarrow> unit io" where
  \<comment> \<open>the first loop over \<^verbatim>\<open>range(n_cont)\<close>\<close>
  "print_catalog L rng cont_types cont_names cont_ids =
     for_each rng (\<lambda>i.
       bind_io (lift_io (type_str cont_types i)) (\<lambda>ts.
       bind_io (lift_io (index cont_names i)) (\<lambda>name.
       bind_io (lift_io (index cont_ids i)) (\<lambda>ident.
       print (catalog_line L i name ts ident)))))"

definition read_catalog :: "lib \<Rightarrow> obj \<Rightarrow> (nat list \<times> item list) io" where
  \<comment> \<open>Contingency definitions\<close>
  "read_catalog L f =
     bind_io (getitem f ''contingencies'') (\<lambda>gc.
     bind_io (get_attr gc ''count'') (\<lambda>n_cont.
     bind_io (getitem f ''contingencies/types'') (\<lambda>gt.
     bind_io (read_all gt) (\<lambda>cont_types.
     bind_io (getitem f ''contingencies/names'') (\<lambda>gn.
     bind_io (read_all gn) (\<lambda>names.
     bind_io (getitem f ''contingencies/ids'') (\<lambda>gi.
     bind_io (read_all gi) (\<lambda>ids.
     seq_io (print (nl @ rule_dash 60))
    (seq_io (print (''Contingencies: '' @ str_attr L n_cont))
    (seq_io (print (rule_dash 60))
    (bind_io (lift_io (py_range n_cont)) (\<lambda>rng.
     seq_io (print_catalog L rng cont_types (items names) (items ids))
    (return_io (rng, items names))))))))))))))"

definition result_row :: "string \<Rightarrow> string \<Rightarrow> string \<Rightarrow> string \<Rightarrow> string" where
  \<comment> \<open>the row of the results table, from its four fields as they are printed\<close>
  "result_row name cost shed status =
     ''  '' @ name @ '' | '' @ cost @ '' | '' @ shed @ '' | '' @ status"

definition contingency_path :: "nat \<Rightarrow> string" where
  "contingency_path i = ''post_contingency/contingency_'' @ fmt_06d (i + 1)"

definition read_result :: "obj \<Rightarrow> data \<Rightarrow> item list \<Rightarrow> nat \<Rightarrow> unit io" where
  \<comment> \<open>the body of the second loop over \<^verbatim>\<open>range(n_cont)\<close>\<close>
  "read_result f load_input cont_names i =
     bind_io (getitem f (contingency_path i)) (\<lambda>g.
     bind_io (get_attr g ''pf_converged'') (\<lambda>pf.
     bind_io (get_attr g ''opf_converged'') (\<lambda>opf.
     let pf_converged = attr_eq1 pf; opf_converged = attr_eq1 opf
     in if opf_converged then
          bind_io (getitem g ''opf/nodes/load'') (\<lambda>gl.
          bind_io (read_all gl) (\<lambda>load_served.
          bind_io (getitem g ''opf'') (\<lambda>go.
          bind_io (get_attr go ''objective'') (\<lambda>objective.
          bind_io (lift_io (column 0 load_input)) (\<lambda>pd.
          bind_io (lift_io (column 0 load_served)) (\<lambda>ps.
          let p_shed = sum_list pd - sum_list ps;
              status = (if pf_converged then ''PF+OPF OK'' else ''OPF OK'')
          in bind_io (lift_io (index cont_names i)) (\<lambda>name.
             bind_io (lift_io (fmt_item_21 name)) (\<lambda>name21.
             bind_io (lift_io (fmt_attr_11_2f objective)) (\<lambda>cost.
             print (result_row name21 cost (rjust 11 (fmt_f 2 p_shed)) status))))))))))
        else
          let status = (if pf_converged then ''PF OK, OPF FAIL'' else ''BOTH FAIL'')
          in bind_io (lift_io (index cont_names i)) (\<lambda>name.
             bind_io (lift_io (fmt_item_21 name)) (\<lambda>name21.
             print (result_row name21 (rjust 11 ''-'') (rjust 11 ''-'') status))))))"

definition read_results :: "obj \<Rightarrow> data \<Rightarrow> nat list \<Rightarrow> item list \<Rightarrow> unit io" where
  \<comment> \<open>Post-contingency OPF solutions\<close>
  "read_results f load_input rng cont_names =
     block
       [print (nl @ rule_dash 60),
        print ''Post-contingency OPF results:'',
        print (rule_dash 60),
        print ''  Name                  | Cost ($)    | P Shed (MW) | Status'',
        print (''  '' @ rule_dash 56),
        for_each rng (read_result f load_input cont_names)]"

definition significant :: "rat list \<Rightarrow> nat list" where
  \<comment> \<open>\<^verbatim>\<open>np.where(np.abs(dpg) > 0.01)[0]\<close>\<close>
  "significant dpg = filter (\<lambda>i. 1 / 100 < \<bar>dpg ! i\<bar>) [0..<length dpg]"

definition redispatch_row :: "nat \<Rightarrow> rat \<Rightarrow> rat \<Rightarrow> rat \<Rightarrow> string" where
  "redispatch_row i b c d =
     ''  '' @ rjust 4 (str_nat (i + 1)) @ ''     '' @ rjust 7 (fmt_f 3 b) @ ''     '' @
     rjust 7 (fmt_f 3 c) @ ''     '' @ rjust 7 (fmt_plus_f 3 d)"

definition no_redispatch :: string where
  "no_redispatch = ''  No significant redispatch (all |delta| < 0.01 p.u.)''"

definition print_redispatch :: "data \<Rightarrow> data \<Rightarrow> unit io" where
  \<comment> \<open>from the difference of the two generator tables to the table or the notice\<close>
  "print_redispatch base_gen cont1_gen =
     bind_io (lift_io (column 0 cont1_gen)) (\<lambda>cpg.
     bind_io (lift_io (column 0 base_gen)) (\<lambda>bpg.
     bind_io (lift_io (np_sub cpg bpg)) (\<lambda>dpg.
     if significant dpg \<noteq> [] then
       seq_io (print ''  Gen#     Base Pg     Cont Pg      Delta'')
         (for_each (significant dpg) (\<lambda>i.
            bind_io (lift_io (cell base_gen i 0)) (\<lambda>b.
            bind_io (lift_io (cell cont1_gen i 0)) (\<lambda>c.
            print (redispatch_row i b c (dpg ! i))))))
     else print no_redispatch)))"

definition read_redispatch :: "obj \<Rightarrow> unit io" where
  \<comment> \<open>Generator redispatch example\<close>
  "read_redispatch f =
     block
       [print (nl @ rule_dash 60),
        print ''Generator Redispatch (Base -> Contingency 1):'',
        print (rule_dash 60),
        bind_io (getitem f ''base_solution/opf/nodes/generator'') (\<lambda>gb.
        bind_io (read_all gb) (\<lambda>base_gen.
        bind_io (getitem f ''post_contingency/contingency_000001/opf/nodes/generator'') (\<lambda>gc.
        bind_io (read_all gc) (\<lambda>cont1_gen.
        print_redispatch base_gen cont1_gen)))),
        print (nl @ rule_eq)]"

definition banner :: "string \<Rightarrow> string list" where
  "banner fp = [rule_eq, ''Reading: '' @ fp, rule_eq]"

definition read_scenario :: "lib \<Rightarrow> (string \<Rightarrow> node option) \<Rightarrow> string \<Rightarrow> unit io" where
  "read_scenario L fs fp =
     seq_io (for_each (banner fp) print)
    (bind_io (open_file fs fp) (\<lambda>f.
     bind_io (read_loads f) (\<lambda>load_input.
     seq_io (read_base f load_input)
    (bind_io (read_catalog L f) (\<lambda>cat.
     seq_io (read_results f load_input (fst cat) (snd cat))
    (read_redispatch f))))))"

subsection \<open>\<^verbatim>\<open>main\<close>\<close>

text \<open>
  The arguments are the namespace that \<^verbatim>\<open>argparse\<close> returns. The parser declares the
  two options independently, so every combination of them reaches \<^verbatim>\<open>main\<close>.
\<close>

record args =
  filepath :: string
  structure_flag :: bool
  element :: "string option"

datatype call =
    Print_structure string
  | Read_element string string
  | Read_scenario string

definition dispatch :: "args \<Rightarrow> call" where
  \<comment> \<open>the \<^verbatim>\<open>if\<close>/\<^verbatim>\<open>elif\<close>/\<^verbatim>\<open>else\<close> of \<^verbatim>\<open>main\<close>; an empty string is false\<close>
  "dispatch a =
     (if structure_flag a then Print_structure (filepath a)
      else if element a \<noteq> None \<and> element a \<noteq> Some [] then Read_element (filepath a) (the (element a))
      else Read_scenario (filepath a))"

definition run_call :: "lib \<Rightarrow> (string \<Rightarrow> node option) \<Rightarrow> call \<Rightarrow> unit io" where
  "run_call L fs c =
     (case c of
        Print_structure fp \<Rightarrow> print_structure L fs fp
      | Read_element fp p \<Rightarrow> read_element L fs fp p
      | Read_scenario fp \<Rightarrow> read_scenario L fs fp)"

definition main :: "lib \<Rightarrow> (string \<Rightarrow> node option) \<Rightarrow> args \<Rightarrow> unit io" where
  "main L fs a = run_call L fs (dispatch a)"



section \<open>Notions for the proofs, and an example container\<close>

definition appends :: "'a io \<Rightarrow> bool" where
  \<comment> \<open>the action only adds to what was printed\<close>
  "appends m = (\<forall>w. prefix (out w) (out (snd (m w))))"

named_theorems appends_intros

text \<open>
  Closed examples need some renderer in the place of numpy's; the texts it gives are
  placeholders.
\<close>

definition lib0 :: lib where
  "lib0 = \<lparr>str_float = (\<lambda>r. ''<float>''), str_array = (\<lambda>d. ''<array>''), str_row = (\<lambda>r. ''<row>'')\<rparr>"

definition ex_solution :: "rat list list \<Rightarrow> rat list list \<Rightarrow> rat \<Rightarrow> node" where
  "ex_solution gen served obj =
     Group [(''objective'', ANum obj)]
       [(''nodes'', Group []
          [(''bus'', Dataset [] ''float64'' (Table 2 [[0, 1], [0, 105 / 100]])),
           (''generator'', Dataset [] ''float64'' (Table 1 gen)),
           (''load'', Dataset [] ''float64'' (Table 2 served))])]"

definition ex_contingency :: "int \<Rightarrow> int \<Rightarrow> (string \<times> node) list \<Rightarrow> node" where
  "ex_contingency pf opf sub = Group [(''pf_converged'', AInt pf), (''opf_converged'', AInt opf)] sub"

definition ex_container :: "int \<Rightarrow> (string \<times> node) list \<Rightarrow> node" where
  "ex_container n results =
     Group []
       [(''grid'', Group []
          [(''nodes'', Group []
             [(''load'', Dataset [] ''float64'' (Table 4 [[10, 5, 1, 1], [20, 8, 1, 1]]))])]),
        (''base_solution'', Group []
          [(''opf'', ex_solution [[25], [0]] [[10, 5], [15, 6]] 100)]),
        (''contingencies'', Group [(''count'', AInt n)]
          [(''types'', Dataset [] ''int64'' (IntVec [0, 1])),
           (''names'', Dataset [] ''object'' (StrVec [''L1'', ''G2''])),
           (''ids'', Dataset [] ''object'' (StrVec [''a'', ''b'']))]),
        (''post_contingency'', Group [] results)]"

definition ex_file :: node where
  "ex_file = ex_container 2
     [(''contingency_000001'', ex_contingency 1 1 [(''opf'', ex_solution [[25], [5 / 2]] [[10, 5], [12, 6]] (2469 / 2))]),
      (''contingency_000002'', ex_contingency 1 0 [])]"

definition ex_long :: node where
  "ex_long = ex_container 1
     [(''contingency_000001'', ex_contingency 1 1 [(''opf'', ex_solution [[25], [5 / 2]] [[10, 5], [12, 6]] (2469 / 2))])]"

definition ex_unconverged :: node where
  "ex_unconverged = ex_container 1 [(''contingency_000001'', ex_contingency 1 0 [])]"

definition ex_fs :: "string \<Rightarrow> node option" where
  "ex_fs p =
     (if p = ''scenario.h5'' then Some ex_file
      else if p = ''long.h5'' then Some ex_long
      else if p = ''unconverged.h5'' then Some ex_unconverged
      else if p = ''empty.h5'' then Some (Group [] [])
      else None)"

section \<open>Rules for running the actions\<close>

lemma bind_return [simp]: "bind_io (return_io x) k = k x"
  by (rule ext) (simp add: bind_io_def return_io_def)

lemma bind_raise [simp]: "bind_io (raise_io e) k = raise_io e"
  by (rule ext) (simp add: bind_io_def raise_io_def)

lemma lift_Inr [simp]: "lift_io (Inr x) = return_io x"
  by (rule ext) (simp add: lift_io_def return_io_def)

lemma lift_Inl [simp]: "lift_io (Inl e) = raise_io e"
  by (rule ext) (simp add: lift_io_def raise_io_def)

lemma seq_return [simp]: "seq_io (return_io u) k = k"
  by (simp add: seq_io_def)

lemma seq_raise [simp]: "seq_io (raise_io e) k = raise_io e"
  by (simp add: seq_io_def)

lemma seq_print [simp]: "seq_io (print s) k w = k (w\<lparr>out := out w @ [s]\<rparr>)"
  by (simp add: seq_io_def bind_io_def print_def)

lemma bind_print [simp]: "bind_io (print s) k w = k () (w\<lparr>out := out w @ [s]\<rparr>)"
  by (simp add: bind_io_def print_def)

lemma seq_log_read [simp]: "seq_io (log_read p) k w = k (w\<lparr>reads := reads w @ [p]\<rparr>)"
  by (simp add: seq_io_def bind_io_def log_read_def)

lemma getitem_Some:
  "lookup (snd g) (split_path p) = Some n \<Longrightarrow>
   getitem g p = (\<lambda>w. (Inr (abs_path (fst g) p, n), w\<lparr>reads := reads w @ [abs_path (fst g) p]\<rparr>))"
  by (rule ext) (simp add: getitem_def return_io_def)



lemma bind_fail: "m w = (Inl e, w') \<Longrightarrow> bind_io m k w = (Inl e, w')"
  by (simp add: bind_io_def)




lemma appends_return [appends_intros]: "appends (return_io x)"
  by (simp add: appends_def return_io_def)

lemma appends_raise [appends_intros]: "appends (raise_io e)"
  by (simp add: appends_def raise_io_def)

lemma appends_lift [appends_intros]: "appends (lift_io r)"
  by (simp add: appends_def lift_io_def)

lemma appends_print [appends_intros]: "appends (print s)"
  by (simp add: appends_def print_def)

lemma appends_log_read [appends_intros]: "appends (log_read p)"
  by (simp add: appends_def log_read_def)

lemma appends_bind [appends_intros]:
  assumes "appends m" and "\<And>x. appends (k x)"
  shows "appends (bind_io m k)"
  unfolding appends_def
proof
  fix w
  show "prefix (out w) (out (snd (bind_io m k w)))"
  proof (cases "m w")
    case (Pair r w')
    have p1: "prefix (out w) (out w')"
      using assms(1) Pair by (auto simp: appends_def dest: spec [of _ w])
    show ?thesis
    proof (cases r)
      case (Inl e)
      with Pair p1 show ?thesis by (simp add: bind_io_def)
    next
      case (Inr x)
      have "prefix (out w') (out (snd (k x w')))"
        using assms(2) [of x] by (simp add: appends_def)
      with Pair Inr p1 show ?thesis
        by (auto simp: bind_io_def intro: prefix_order.trans)
    qed
  qed
qed

lemma appends_seq [appends_intros]: "appends m \<Longrightarrow> appends k \<Longrightarrow> appends (seq_io m k)"
  by (simp add: seq_io_def appends_bind)

lemma appends_block [appends_intros]: "(\<And>m. m \<in> set ms \<Longrightarrow> appends m) \<Longrightarrow> appends (block ms)"
  by (induction ms) (auto intro: appends_intros)

lemma appends_for_each [appends_intros]: "(\<And>x. appends (body x)) \<Longrightarrow> appends (for_each xs body)"
  unfolding for_each_def by (rule appends_block) auto

lemma appends_if [appends_intros]: "appends a \<Longrightarrow> appends b \<Longrightarrow> appends (if c then a else b)"
  by simp

lemma appends_getitem [appends_intros]: "appends (getitem g p)"
  by (auto simp: getitem_def intro!: appends_intros split: option.splits)

lemma appends_get_attr [appends_intros]: "appends (get_attr g k)"
  by (auto simp: get_attr_def intro!: appends_intros split: option.splits)

lemma appends_read_all [appends_intros]: "appends (read_all g)"
  by (auto simp: read_all_def intro!: appends_intros split: node.splits)

lemma appends_read_column [appends_intros]: "appends (read_column g k)"
  by (auto simp: read_column_def intro!: appends_intros split: node.splits data.splits)

lemma appends_open_file [appends_intros]: "appends (open_file fs fp)"
  by (auto simp: open_file_def intro!: appends_intros split: option.splits)











lemma seq_assoc [simp]: "seq_io (seq_io a b) k = seq_io a (seq_io b k)"
  by (rule ext) (simp add: seq_io_def bind_io_def split: prod.splits sum.splits)

lemma seq_step: "m w = (Inr (), w') \<Longrightarrow> seq_io m k w = k w'"
  by (simp add: seq_io_def bind_io_def)



lemma replicate_num: "replicate (numeral k) x = x # replicate (pred_numeral k) x"
  by (simp add: numeral_eq_Suc)

lemmas ex_defs = ex_fs_def ex_file_def ex_long_def ex_unconverged_def ex_container_def
  ex_contingency_def ex_solution_def lib0_def

lemmas fmt_defs = fmt_06d_def zfill_def rjust_def ljust_def str_nat.simps digit_char_def
  str_int_def fmt_f_def fmt_plus_f_def fmt_abs_def round_half_even_def str_shape_def
  str_attr_def nl_def rule_eq_def rule_dash_def replicate_num



section \<open>The claims\<close>

subsection \<open>C1: the base-case load shed\<close>




subsection \<open>C2: the status of a contingency row\<close>











subsection \<open>C3: the redispatch table\<close>

lemma for_each_print:
  "(\<And>x. x \<in> set xs \<Longrightarrow> body x = print (line x)) \<Longrightarrow>
   for_each xs body w = (Inr (), w\<lparr>out := out w @ map line xs\<rparr>)"
proof (induction xs arbitrary: w)
  case Nil
  then show ?case by (simp add: for_each_def return_io_def)
next
  case (Cons x xs)
  have "for_each (x # xs) body w = for_each xs body (w\<lparr>out := out w @ [line x]\<rparr>)"
    using Cons.prems [of x] by (simp add: for_each_def)
  also have "\<dots> = (Inr (), w\<lparr>out := out w @ map line (x # xs)\<rparr>)"
    using Cons.IH [of "w\<lparr>out := out w @ [line x]\<rparr>"] Cons.prems by simp
  finally show ?case .
qed




subsection \<open>C9: the dispatch of \<^verbatim>\<open>main\<close>\<close>

text \<open>
  C9, as the claim states it, fails: the two options are not exclusive. With both given,
  the structure is printed and the element is not read.
\<close>

theorem dispatch_both_flags_counterexample:
  "element \<lparr>filepath = ''scenario.h5'', structure_flag = True, element = Some ''grid/nodes/load''\<rparr>
     = Some ''grid/nodes/load'' \<and>
   dispatch \<lparr>filepath = ''scenario.h5'', structure_flag = True, element = Some ''grid/nodes/load''\<rparr>
     = Print_structure ''scenario.h5'' \<and>
   dispatch \<lparr>filepath = ''scenario.h5'', structure_flag = True, element = Some ''grid/nodes/load''\<rparr>
     \<noteq> Read_element ''scenario.h5'' ''grid/nodes/load''"
  by (simp add: dispatch_def)

text \<open>
  C9, amended. \<^verbatim>\<open>--structure\<close> has precedence: with it \<^verbatim>\<open>print_structure\<close> runs,
  whether \<^verbatim>\<open>--element\<close> is given or not; without it and with \<^verbatim>\<open>--element\<close> and a
  path that is not empty, \<^verbatim>\<open>read_element\<close> runs on that path; without it and with no
  \<^verbatim>\<open>--element\<close> or an empty path, \<^verbatim>\<open>read_scenario\<close> runs. Each invocation runs
  the one function that this selects.
\<close>

theorem dispatch_cases:
  "(structure_flag a \<longrightarrow> dispatch a = Print_structure (filepath a)) \<and>
   (\<not> structure_flag a \<and> element a = Some p \<and> p \<noteq> [] \<longrightarrow>
      dispatch a = Read_element (filepath a) p) \<and>
   (\<not> structure_flag a \<and> (element a = None \<or> element a = Some []) \<longrightarrow>
      dispatch a = Read_scenario (filepath a)) \<and>
   main L fs a =
     (case dispatch a of
        Print_structure fp \<Rightarrow> print_structure L fs fp
      | Read_element fp q \<Rightarrow> read_element L fs fp q
      | Read_scenario fp \<Rightarrow> read_scenario L fs fp)"
  by (auto simp: dispatch_def main_def run_call_def)

theorem dispatch_cases_witness:
  "dispatch \<lparr>filepath = ''s.h5'', structure_flag = True, element = None\<rparr> = Print_structure ''s.h5'' \<and>
   dispatch \<lparr>filepath = ''s.h5'', structure_flag = False, element = Some ''grid''\<rparr> = Read_element ''s.h5'' ''grid'' \<and>
   dispatch \<lparr>filepath = ''s.h5'', structure_flag = False, element = None\<rparr> = Read_scenario ''s.h5'' \<and>
   dispatch \<lparr>filepath = ''s.h5'', structure_flag = False, element = Some []\<rparr> = Read_scenario ''s.h5''"
  using dispatch_cases [of "\<lparr>filepath = ''s.h5'', structure_flag = True, element = None\<rparr>" "''grid''" lib0 ex_fs]
    dispatch_cases [of "\<lparr>filepath = ''s.h5'', structure_flag = False, element = Some ''grid''\<rparr>" "''grid''" lib0 ex_fs]
    dispatch_cases [of "\<lparr>filepath = ''s.h5'', structure_flag = False, element = None\<rparr>" "''grid''" lib0 ex_fs]
    dispatch_cases [of "\<lparr>filepath = ''s.h5'', structure_flag = False, element = Some []\<rparr>" "''grid''" lib0 ex_fs]
  by simp

subsection \<open>C7: the paths of the walk resolve\<close>

lemma split_slash_nonempty: "split_slash s \<noteq> []"
  by (induction s) (auto split: list.splits)

lemma split_slash_append: "split_slash (a @ CHR ''/'' # b) = split_slash a @ split_slash b"
proof (induction a)
  case Nil
  show ?case by simp
next
  case (Cons c a)
  then show ?case
    using split_slash_nonempty [of a] by (cases "split_slash a") auto
qed

lemma split_slash_name: "CHR ''/'' \<notin> set k \<Longrightarrow> split_slash k = [k]"
  by (induction k) auto

lemma split_path_slash: "split_path (name @ ''/'') = split_path name"
  using split_slash_append [of name "[]"] by (simp add: split_path_def)

lemma split_path_append_name:
  assumes "pre = [] \<or> (\<exists>q. pre = q @ ''/'')" and "CHR ''/'' \<notin> set k" and "k \<noteq> []"
  shows "split_path (pre @ k) = split_path pre @ [k]"
  using assms(1)
proof
  assume "pre = []"
  with assms(2,3) show ?thesis
    by (simp add: split_path_def split_slash_name)
next
  assume "\<exists>q. pre = q @ ''/''"
  then obtain q where q: "pre = q @ ''/''" ..
  have "split_slash (pre @ k) = split_slash q @ [k]"
    using q split_slash_append [of q k] assms(2) by (simp add: split_slash_name)
  moreover have "split_path pre = filter (\<lambda>w. w \<noteq> []) (split_slash q)"
    using q split_path_slash [of q] by (simp add: split_path_def)
  ultimately show ?thesis
    using assms(3) by (simp add: split_path_def)
qed

lemma lookup_append: "lookup tr comps = Some n \<Longrightarrow> lookup tr (comps @ cs) = lookup n cs"
  by (induction tr comps rule: lookup.induct) (auto split: option.splits)

lemma lookup_child:
  assumes "lookup tr comps = Some (Group a cs0)" and "distinct (map fst cs0)"
    and "(k, n) \<in> set cs0"
  shows "lookup tr (comps @ [k]) = Some n"
  using assms by (simp add: lookup_append)

lemma visit_lookup:
  "wf_node n \<Longrightarrow> lookup tr (split_path name) = Some n \<Longrightarrow>
     (p, ob) \<in> set (visit_node name n) \<Longrightarrow> lookup tr (split_path p) = Some ob"
  "wf_children cs \<Longrightarrow> distinct (map fst cs0) \<Longrightarrow> set cs \<subseteq> set cs0 \<Longrightarrow>
     lookup tr (split_path pre) = Some (Group a cs0) \<Longrightarrow>
     pre = [] \<or> (\<exists>q. pre = q @ ''/'') \<Longrightarrow>
     (p, ob) \<in> set (visit_children pre cs) \<Longrightarrow> lookup tr (split_path p) = Some ob"
proof (induction name n and pre cs arbitrary: p ob and p ob cs0 a rule: visit_node_visit_children.induct)
  case (1 name a t d)
  then show ?case by simp
next
  case (2 name a cs)
  show ?case
  proof (cases "(p, ob) = (name, Group a cs)")
    case True
    with "2.prems" show ?thesis by simp
  next
    case False
    with "2.prems"(3) have mem: "(p, ob) \<in> set (visit_children (name @ ''/'') cs)"
      by auto
    have "lookup tr (split_path (name @ ''/'')) = Some (Group a cs)"
      using "2.prems"(2) by (simp add: split_path_slash)
    then show ?thesis
      using "2.IH" [of cs a p ob] "2.prems"(1) mem by auto
  qed
next
  case (3 pre)
  then show ?case by simp
next
  case (4 pre kn rest)
  from "4.prems"(1) have k: "fst kn \<noteq> []" "CHR ''/'' \<notin> set (fst kn)"
    and wn: "wf_node (snd kn)" and wr: "wf_children rest"
    by simp_all
  from "4.prems"(6) consider
    (here) "(p, ob) \<in> set (visit_node (pre @ fst kn) (snd kn))"
    | (later) "(p, ob) \<in> set (visit_children pre rest)"
    by auto
  then show ?case
  proof cases
    case here
    have "(fst kn, snd kn) \<in> set cs0"
      using "4.prems"(3) by auto
    then have "lookup tr (split_path pre @ [fst kn]) = Some (snd kn)"
      using lookup_child [OF "4.prems"(4) "4.prems"(2)] by simp
    then have "lookup tr (split_path (pre @ fst kn)) = Some (snd kn)"
      using split_path_append_name [OF "4.prems"(5) k(2) k(1)] by simp
    then show ?thesis
      using "4.IH"(1) [OF wn _ here] by simp
  next
    case later
    have "set rest \<subseteq> set cs0"
      using "4.prems"(3) by auto
    then show ?thesis
      using "4.IH"(2) [OF wr "4.prems"(2) _ "4.prems"(4) "4.prems"(5) later] by simp
  qed
qed

lemma visititems_lookup:
  assumes "wf_node f" and "(p, ob) \<in> set (visititems f)"
  shows "lookup f (split_path p) = Some ob"
proof (cases f)
  case (Dataset a t d)
  with assms(2) show ?thesis by (simp add: visititems_def)
next
  case (Group a cs)
  have "lookup f (split_path []) = Some (Group a cs)"
    using Group by (simp add: split_path_def)
  then show ?thesis
    using visit_lookup(2) [of cs cs f "[]" a p ob] assms Group
    by (simp add: visititems_def)
qed

lemma for_each_prints:
  "for_each xs (\<lambda>x. print (line x)) w = (Inr (), w\<lparr>out := out w @ map line xs\<rparr>)"
  by (rule for_each_print) simp

lemma seq_for_each_prints [simp]:
  "seq_io (for_each xs (\<lambda>x. print (line x))) k w = k (w\<lparr>out := out w @ map line xs\<rparr>)"
  by (simp add: seq_step [OF for_each_prints])

lemma read_element_found:
  assumes "fs fp = Some f" and "lookup f (split_path p) = Some ob"
  shows "read_element L fs fp p w =
     (Inr (),
      w\<lparr>reads := reads w @ [p],
        out := out w @ (''Path: '' @ p) #
          (case ob of
             Dataset a t d \<Rightarrow>
               [''Type: Dataset'', ''Shape: '' @ str_shape d, ''Dtype: '' @ t,
                nl @ ''Data:'' @ nl @ str_array L d]
           | Group a cs \<Rightarrow>
               [''Type: Group'', ''Attributes:''] @
               map (\<lambda>kv. ''  '' @ fst kv @ '' = '' @ str_attr L (snd kv)) a @
               [''Children:''] @ map (\<lambda>kn. ''  '' @ fst kn) cs)\<rparr>)"
  using assms
  by (cases ob)
    (simp_all add: read_element_def open_file_def contains_def getitem_Some bind_io_def
      abs_path_def return_io_def print_def for_each_prints)



text \<open>
  C7. In a container whose link names are well formed, every path that \<^verbatim>\<open>visititems\<close>
  gives to the visitor of \<^verbatim>\<open>print_structure\<close> is in the container for \<^verbatim>\<open>read_element\<close>:
  the membership test holds, the path resolves to the very object that was visited, and
  \<^verbatim>\<open>read_element\<close> on it prints the object and not the not-found message.
\<close>

theorem walk_paths_resolve:
  assumes "wf_node f" and "(p, ob) \<in> set (visititems f)"
  shows "contains f p \<and> lookup f (split_path p) = Some ob \<and>
     (fs fp = Some f \<longrightarrow>
        fst (read_element L fs fp p world0) = Inr () \<and>
        hd (out (snd (read_element L fs fp p world0))) = ''Path: '' @ p)"
proof -
  have l: "lookup f (split_path p) = Some ob"
    using visititems_lookup [OF assms] .
  then have "contains f p"
    by (simp add: contains_def)
  moreover have "fst (read_element L fs fp p world0) = Inr () \<and>
        hd (out (snd (read_element L fs fp p world0))) = ''Path: '' @ p" if "fs fp = Some f"
    using read_element_found [where fs = fs and fp = fp and L = L and w = world0, OF that l]
    by (simp add: world0_def)
  ultimately show ?thesis
    using l by blast
qed

theorem walk_paths_resolve_witness:
  "contains ex_file ''base_solution/opf/nodes/bus'' \<and>
   fst (read_element lib0 ex_fs ''scenario.h5'' ''base_solution/opf/nodes/bus'' world0) = Inr () \<and>
   hd (out (snd (read_element lib0 ex_fs ''scenario.h5'' ''base_solution/opf/nodes/bus'' world0))) =
     ''Path: base_solution/opf/nodes/bus''"
proof -
  have w: "wf_node ex_file"
    by (simp add: ex_defs)
  have m: "(''base_solution/opf/nodes/bus'', Dataset [] ''float64'' (Table 2 [[0, 1], [0, 105 / 100]]))
      \<in> set (visititems ex_file)"
    by (simp add: ex_defs visititems_def)
  have f: "ex_fs ''scenario.h5'' = Some ex_file"
    by (simp add: ex_fs_def)
  show ?thesis
    using walk_paths_resolve [OF w m, where fs = ex_fs and fp = "''scenario.h5''" and L = lib0] f
    by simp
qed


subsection \<open>C6: what a failed summary has printed\<close>


lemma seq_return_right [simp]: "seq_io m (return_io ()) = m"
  by (rule ext) (simp add: seq_io_def bind_io_def return_io_def split: prod.splits sum.splits)













subsection \<open>C8: the exit code\<close>





subsection \<open>Running the script on the example containers\<close>

text \<open>
  The runs on the examples are computed with the formatting of numbers left folded, and
  with the lookups of the schema's paths in each container as facts.
\<close>

lemmas step_defs = read_scenario_def read_loads_def read_base_def read_catalog_def
  print_catalog_def read_results_def read_result_def read_redispatch_def print_redispatch_def
  banner_def for_each_def open_file_def getitem_def get_attr_def read_all_def read_column_def
  column_def cell_def np_min_def np_max_def np_sub_def index_def py_range_def attr_eq1_def
  fmt_attr_11_2f_def items_def fmt_item_21_def eq0_at_def type_str_def
  abs_path_def split_path_def significant_def
  bind_io_def seq_io_def return_io_def raise_io_def lift_io_def print_def log_read_def world0_def

lemma contingency_path_0: "contingency_path 0 = ''post_contingency/contingency_000001''"
  by (simp add: contingency_path_def fmt_defs)

lemma ex_long_lookups:
  "lookup ex_long [''grid'', ''nodes'', ''load''] =
     Some (Dataset [] ''float64'' (Table 4 [[10, 5, 1, 1], [20, 8, 1, 1]]))"
  "lookup ex_long [''base_solution'', ''opf'', ''nodes'', ''bus''] =
     Some (Dataset [] ''float64'' (Table 2 [[0, 1], [0, 105 / 100]]))"
  "lookup ex_long [''base_solution'', ''opf'', ''nodes'', ''generator''] =
     Some (Dataset [] ''float64'' (Table 1 [[25], [0]]))"
  "lookup ex_long [''base_solution'', ''opf'', ''nodes'', ''load''] =
     Some (Dataset [] ''float64'' (Table 2 [[10, 5], [15, 6]]))"
  "lookup ex_long [''contingencies''] =
     Some (Group [(''count'', AInt 1)]
        [(''types'', Dataset [] ''int64'' (IntVec [0, 1])),
         (''names'', Dataset [] ''object'' (StrVec [''L1'', ''G2''])),
         (''ids'', Dataset [] ''object'' (StrVec [''a'', ''b'']))])"
  "lookup ex_long [''contingencies'', ''types''] = Some (Dataset [] ''int64'' (IntVec [0, 1]))"
  "lookup ex_long [''contingencies'', ''names''] = Some (Dataset [] ''object'' (StrVec [''L1'', ''G2'']))"
  "lookup ex_long [''contingencies'', ''ids''] = Some (Dataset [] ''object'' (StrVec [''a'', ''b'']))"
  "lookup ex_long [''post_contingency'', ''contingency_000001''] =
     Some (ex_contingency 1 1 [(''opf'', ex_solution [[25], [5 / 2]] [[10, 5], [12, 6]] (2469 / 2))])"
  "lookup ex_long [''post_contingency'', ''contingency_000001'', ''opf'', ''nodes'', ''generator''] =
     Some (Dataset [] ''float64'' (Table 1 [[25], [5 / 2]]))"
  by (simp_all add: ex_long_def ex_container_def ex_solution_def ex_contingency_def)

lemma ex_unconverged_lookups:
  "lookup ex_unconverged [''grid'', ''nodes'', ''load''] =
     Some (Dataset [] ''float64'' (Table 4 [[10, 5, 1, 1], [20, 8, 1, 1]]))"
  "lookup ex_unconverged [''base_solution'', ''opf'', ''nodes'', ''bus''] =
     Some (Dataset [] ''float64'' (Table 2 [[0, 1], [0, 105 / 100]]))"
  "lookup ex_unconverged [''base_solution'', ''opf'', ''nodes'', ''generator''] =
     Some (Dataset [] ''float64'' (Table 1 [[25], [0]]))"
  "lookup ex_unconverged [''base_solution'', ''opf'', ''nodes'', ''load''] =
     Some (Dataset [] ''float64'' (Table 2 [[10, 5], [15, 6]]))"
  "lookup ex_unconverged [''contingencies''] =
     Some (Group [(''count'', AInt 1)]
        [(''types'', Dataset [] ''int64'' (IntVec [0, 1])),
         (''names'', Dataset [] ''object'' (StrVec [''L1'', ''G2''])),
         (''ids'', Dataset [] ''object'' (StrVec [''a'', ''b'']))])"
  "lookup ex_unconverged [''contingencies'', ''types''] = Some (Dataset [] ''int64'' (IntVec [0, 1]))"
  "lookup ex_unconverged [''contingencies'', ''names''] =
     Some (Dataset [] ''object'' (StrVec [''L1'', ''G2'']))"
  "lookup ex_unconverged [''contingencies'', ''ids''] = Some (Dataset [] ''object'' (StrVec [''a'', ''b'']))"
  "lookup ex_unconverged [''post_contingency'', ''contingency_000001''] =
     Some (Group [(''pf_converged'', AInt 1), (''opf_converged'', AInt 0)] [])"
  "lookup ex_unconverged [''post_contingency'', ''contingency_000001'', ''opf'', ''nodes'', ''generator''] =
     None"
  by (simp_all add: ex_unconverged_def ex_container_def ex_solution_def ex_contingency_def)

subsection \<open>C4: reads of the solution of a contingency that did not converge\<close>

text \<open>
  C4. The claim holds in the loop over the results and fails in the redispatch step. In
  a container whose only contingency has \<^verbatim>\<open>pf_converged = 1\<close> and \<^verbatim>\<open>opf_converged = 0\<close>
  and no solution, the loop reads the group and its two flags and prints the row with the
  placeholders and the status \<^verbatim>\<open>PF OK, OPF FAIL\<close>; the redispatch step then looks up
  \<^verbatim>\<open>post_contingency/contingency_000001/opf/nodes/generator\<close> without a test of the flag,
  and the summary ends with the \<^verbatim>\<open>KeyError\<close> of that path.
\<close>

theorem redispatch_reads_unconverged:
  "lookup ex_unconverged (split_path (contingency_path 0)) =
     Some (Group [(''pf_converged'', AInt 1), (''opf_converged'', AInt 0)] []) \<and>
   fst (read_scenario lib0 ex_fs ''unconverged.h5'' world0) =
     Inl (KeyError ''post_contingency/contingency_000001/opf/nodes/generator'') \<and>
   reads (snd (read_scenario lib0 ex_fs ''unconverged.h5'' world0)) =
     [''grid/nodes/load'', ''base_solution/opf/nodes/bus'', ''base_solution/opf/nodes/generator'',
      ''base_solution/opf/nodes/load'', ''contingencies'', ''contingencies@count'',
      ''contingencies/types'', ''contingencies/names'', ''contingencies/ids'',
      ''post_contingency/contingency_000001'',
      ''post_contingency/contingency_000001@pf_converged'',
      ''post_contingency/contingency_000001@opf_converged'',
      ''base_solution/opf/nodes/generator'',
      ''post_contingency/contingency_000001/opf/nodes/generator''] \<and>
   out (snd (read_scenario lib0 ex_fs ''unconverged.h5'' world0)) ! 20 =
     ''  L1                    |           - |           - | PF OK, OPF FAIL''"
proof -
  have row: "result_row (ljust 21 ''L1'') (rjust 11 ''-'') (rjust 11 ''-'') ''PF OK, OPF FAIL'' =
      ''  L1                    |           - |           - | PF OK, OPF FAIL''"
    by (simp add: result_row_def fmt_defs)
  have "out (snd (read_scenario lib0 ex_fs ''unconverged.h5'' world0)) ! 20 =
      result_row (ljust 21 ''L1'') (rjust 11 ''-'') (rjust 11 ''-'') ''PF OK, OPF FAIL''"
    by (simp add: ex_fs_def ex_unconverged_lookups step_defs contingency_path_0)
  with row show ?thesis
    by (simp add: ex_fs_def ex_unconverged_lookups step_defs contingency_path_0)
qed

subsection \<open>C5: the lengths of the catalog arrays\<close>

text \<open>
  C5, as the claim states it, fails: no length is compared with the count. With a count
  of 1 and arrays of two entries each, the summary runs to its end.
\<close>

theorem long_arrays_counterexample:
  "lookup ex_long (split_path ''contingencies'') =
     Some (Group [(''count'', AInt 1)]
        [(''types'', Dataset [] ''int64'' (IntVec [0, 1])),
         (''names'', Dataset [] ''object'' (StrVec [''L1'', ''G2''])),
         (''ids'', Dataset [] ''object'' (StrVec [''a'', ''b'']))]) \<and>
   fst (read_scenario lib0 ex_fs ''long.h5'' world0) = Inr ()"
  by (simp add: ex_fs_def ex_long_lookups ex_contingency_def ex_solution_def step_defs
      contingency_path_0)

lemma for_each_append:
  "for_each (xs @ ys) body = seq_io (for_each xs body) (for_each ys body)"
  by (induction xs) (simp_all add: for_each_def)

lemma for_each_raise:
  "body x = raise_io e \<Longrightarrow> for_each (x # xs) body w = (Inl e, w)"
  by (simp add: for_each_def raise_io_def)

lemma print_catalog_run:
  "print_catalog L [0..<n] (IntVec ts) names ids w =
     (if n \<le> min (length ts) (min (length names) (length ids)) then Inr () else Inl IndexError,
      w\<lparr>out := out w @
         map (\<lambda>i. catalog_line L i (names ! i) (if ts ! i = 0 then ''LINE'' else ''GEN'') (ids ! i))
           [0..<min n (min (length ts) (min (length names) (length ids)))]\<rparr>)"
proof -
  let ?m = "min (length ts) (min (length names) (length ids))"
  let ?line = "\<lambda>i. catalog_line L i (names ! i) (if ts ! i = 0 then ''LINE'' else ''GEN'') (ids ! i)"
  let ?body = "\<lambda>i. bind_io (lift_io (type_str (IntVec ts) i)) (\<lambda>ts.
       bind_io (lift_io (index names i)) (\<lambda>name.
       bind_io (lift_io (index ids i)) (\<lambda>ident.
       print (catalog_line L i name ts ident))))"
  have good: "?body i = print (?line i)" if "i < ?m" for i
    using that by (simp add: type_str_def eq0_at_def index_def)
  have bad: "?body ?m = raise_io IndexError" if "?m < n"
    by (simp add: type_str_def eq0_at_def index_def min_def)
  show ?thesis
  proof (cases "n \<le> ?m")
    case True
    then have "for_each [0..<n] ?body w = (Inr (), w\<lparr>out := out w @ map ?line [0..<n]\<rparr>)"
      by (intro for_each_print good) auto
    with True show ?thesis
      by (simp add: print_catalog_def min_absorb1)
  next
    case False
    then have lt: "?m < n" by linarith
    then have split: "[0..<n] = [0..<?m] @ ?m # [Suc ?m..<n]"
      by (metis le_add_diff_inverse less_imp_le_nat upt_add_eq_append upt_conv_Cons zero_le)
    have first: "for_each [0..<?m] ?body w = (Inr (), w\<lparr>out := out w @ map ?line [0..<?m]\<rparr>)"
      by (intro for_each_print good) auto
    have "for_each ([0..<?m] @ ?m # [Suc ?m..<n]) ?body w =
        for_each (?m # [Suc ?m..<n]) ?body (w\<lparr>out := out w @ map ?line [0..<?m]\<rparr>)"
      using first by (simp add: for_each_append seq_io_def bind_io_def)
    also have "\<dots> = (Inl IndexError, w\<lparr>out := out w @ map ?line [0..<?m]\<rparr>)"
      by (rule for_each_raise) (rule bad [OF lt])
    finally have res: "for_each [0..<n] ?body w =
        (Inl IndexError, w\<lparr>out := out w @ map ?line [0..<?m]\<rparr>)"
      using split by simp
    have e1: "(if n \<le> ?m then Inr () else Inl IndexError) = (Inl IndexError :: py_error + unit)"
      using False by (simp only: if_False)
    have e2: "min n ?m = ?m"
      using lt by (simp only: min_absorb2 less_imp_le)
    show ?thesis
      unfolding print_catalog_def e1 e2 using res .
  qed
qed

text \<open>
  C5, amended. The catalog loop runs over the indices below the count \<open>n\<close>. When no
  array is shorter than \<open>n\<close> it prints the \<open>n\<close> catalog lines and succeeds, also when an
  array is longer than \<open>n\<close>, whose further entries are not looked at. When an array is
  shorter than \<open>n\<close>, it prints the lines of the indices below the shortest length and then
  ends with an \<^verbatim>\<open>IndexError\<close>.
\<close>

theorem catalog_lengths:
  "print_catalog L [0..<n] (IntVec ts) names ids w =
     (if n \<le> min (length ts) (min (length names) (length ids)) then Inr () else Inl IndexError,
      w\<lparr>out := out w @
         map (\<lambda>i. catalog_line L i (names ! i) (if ts ! i = 0 then ''LINE'' else ''GEN'') (ids ! i))
           [0..<min n (min (length ts) (min (length names) (length ids)))]\<rparr>)"
  by (rule print_catalog_run)

theorem catalog_lengths_witness:
  "print_catalog lib0 [0..<2] (IntVec [0]) [Text ''L1'', Text ''G2''] [Text ''a'', Text ''b''] world0 =
     (Inl IndexError, world0\<lparr>out := [''  1: L1 (LINE outage, id=a)'']\<rparr>) \<and>
   print_catalog lib0 [0..<1] (IntVec [0, 1]) [Text ''L1'', Text ''G2''] [Text ''a'', Text ''b''] world0 =
     (Inr (), world0\<lparr>out := [''  1: L1 (LINE outage, id=a)'']\<rparr>)"
proof -
  have l: "catalog_line lib0 0 (Text ''L1'') ''LINE'' (Text ''a'') = ''  1: L1 (LINE outage, id=a)''"
    by (simp add: catalog_line_def str_item_def fmt_defs)
  show ?thesis
    using catalog_lengths [of lib0 2 "[0]" "[Text ''L1'', Text ''G2'']" "[Text ''a'', Text ''b'']" world0]
      catalog_lengths [of lib0 1 "[0, 1]" "[Text ''L1'', Text ''G2'']" "[Text ''a'', Text ''b'']" world0]
      l
    by (simp add: world0_def)
qed


subsection \<open>C10: the label of a contingency type\<close>

text \<open>
  C10. The label in the catalog of contingencies is \<^verbatim>\<open>LINE\<close> iff the stored type code
  is 0; every other code, and not only 1, gives \<^verbatim>\<open>GEN\<close>; and the catalog line of an
  index is printed with this label.
\<close>

theorem type_label_line_iff_zero:
  assumes "i < length ts"
  shows "(type_str (IntVec ts) i = Inr ''LINE'' \<longleftrightarrow> ts ! i = 0) \<and>
         (type_str (IntVec ts) i = Inr ''GEN'' \<longleftrightarrow> ts ! i \<noteq> 0) \<and>
         (i < n \<and> n \<le> length ts \<and> n \<le> length names \<and> n \<le> length ids \<longrightarrow>
            out (snd (print_catalog L [0..<n] (IntVec ts) names ids w)) ! (length (out w) + i) =
              catalog_line L i (names ! i) (if ts ! i = 0 then ''LINE'' else ''GEN'') (ids ! i))"
proof -
  have "out (snd (print_catalog L [0..<n] (IntVec ts) names ids w)) ! (length (out w) + i) =
      catalog_line L i (names ! i) (if ts ! i = 0 then ''LINE'' else ''GEN'') (ids ! i)"
    if "i < n" and "n \<le> length ts" and "n \<le> length names" and "n \<le> length ids"
  proof -
    have "min n (min (length ts) (min (length names) (length ids))) = n"
      using that by simp
    then show ?thesis
      using that(1) by (simp add: print_catalog_run nth_append)
  qed
  then show ?thesis
    using assms by (simp add: type_str_def eq0_at_def)
qed

theorem type_label_line_iff_zero_witness:
  "type_str (IntVec [0, 1, 7]) 0 = Inr ''LINE'' \<and> type_str (IntVec [0, 1, 7]) 2 = Inr ''GEN'' \<and>
   out (snd (print_catalog lib0 [0..<3] (IntVec [0, 1, 7])
        [Text ''L1'', Text ''G2'', Text ''X3''] [Text ''a'', Text ''b'', Text ''c''] world0)) ! 2 =
     ''  3: X3 (GEN outage, id=c)''"
proof -
  have l: "catalog_line lib0 2 (Text ''X3'') ''GEN'' (Text ''c'') = ''  3: X3 (GEN outage, id=c)''"
    by (simp add: catalog_line_def str_item_def fmt_defs)
  show ?thesis
    using type_label_line_iff_zero [of 0 "[0, 1, 7]" 3 "[Text ''L1'', Text ''G2'', Text ''X3'']"
        "[Text ''a'', Text ''b'', Text ''c'']" lib0 world0]
      type_label_line_iff_zero [of 2 "[0, 1, 7]" 3 "[Text ''L1'', Text ''G2'', Text ''X3'']"
        "[Text ''a'', Text ''b'', Text ''c'']" lib0 world0] l
    by (simp add: world0_def numeral_2_eq_2)
qed

end
